theory Spec2Isabelle
  imports Main
begin

section \<open>JavaScript values\<close>

text \<open>
  The values that reach the client: \<open>undefined\<close>, \<open>null\<close>, booleans, numbers, strings,
  arrays and plain objects. Numbers are the integer-valued ones in the range where
  \<open>Number.prototype.toString\<close> prints plain decimal digits (no fraction, no exponent).
  A plain object is the list of its own properties in the order \<open>Object.entries\<close> lists
  them; for property names that are not array indices (every name this client uses) that
  is the order in which the properties were written. The property names of an object are
  distinct; a lookup reads the first entry of a name.
\<close>

datatype js_value =
    JUndefined
  | JNull
  | JBool bool
  | JNum int
  | JStr string
  | JArr "js_value list"
  | JObj "(string \<times> js_value) list"

type_synonym js_object = "(string \<times> js_value) list"

fun digits_of_nat :: "nat \<Rightarrow> string" where
  "digits_of_nat n =
     (if n < 10 then [''0123456789'' ! n]
      else digits_of_nat (n div 10) @ [''0123456789'' ! (n mod 10)])"

declare digits_of_nat.simps [simp del]

definition Number_toString :: "int \<Rightarrow> string" where
  "Number_toString i =
     (if i < 0 then ''-'' @ digits_of_nat (nat (- i)) else digits_of_nat (nat i))"

text \<open>\<open>Array.prototype.join\<close> on an array of strings.\<close>

fun join :: "string \<Rightarrow> string list \<Rightarrow> string" where
  "join sep [] = []"
| "join sep [x] = x"
| "join sep (x # y # ys) = x @ sep @ join sep (y # ys)"

text \<open>
  The string a template literal \<open>`${v}`\<close> inserts for \<open>v\<close>. An array prints its elements
  joined by commas, with \<open>undefined\<close> and \<open>null\<close> elements printed as nothing.
\<close>

fun to_string :: "js_value \<Rightarrow> string" where
  "to_string JUndefined = ''undefined''"
| "to_string JNull = ''null''"
| "to_string (JBool b) = (if b then ''true'' else ''false'')"
| "to_string (JNum i) = Number_toString i"
| "to_string (JStr s) = s"
| "to_string (JArr xs) =
     join '','' (map (\<lambda>x. if x = JUndefined \<or> x = JNull then [] else to_string x) xs)"
| "to_string (JObj ps) = ''[object Object]''"

text \<open>
  \<open>_.get(object, path, defaultValue)\<close> for a path that is a single property name which no
  primitive and no array has (all the paths of this client are such): the property's
  value, or \<open>defaultValue\<close> when the object is not an object, has no such property, or
  holds \<open>undefined\<close> there. The two-argument form has \<open>defaultValue = undefined\<close>.
\<close>

fun lodash_get :: "js_value \<Rightarrow> string \<Rightarrow> js_value \<Rightarrow> js_value" where
  "lodash_get (JObj ps) path defaultValue =
     (case map_of ps path of
        None \<Rightarrow> defaultValue
      | Some v \<Rightarrow> if v = JUndefined then defaultValue else v)"
| "lodash_get other path defaultValue = defaultValue"

section \<open>The world outside the client\<close>

text \<open>
  What a caller can observe besides the returned value: the lines written with
  \<open>console.warn\<close> and the URLs handed to \<open>fetch\<close>, both in order.
\<close>

record world =
  warnings :: "string list"
  requests :: "string list"

definition console_warn :: "string \<Rightarrow> world \<Rightarrow> world" where
  "console_warn msg w = w\<lparr>warnings := warnings w @ [msg]\<rparr>"

text \<open>
  A thrown error or a rejected promise. \<open>Error msg\<close> is \<open>new Error(msg)\<close> thrown by the
  constructor, \<open>TransportError\<close> is whatever \<open>fetch\<close> rejects with, \<open>ParseError\<close> is the
  rejection of \<open>res.json()\<close> on a body that is not valid JSON.
\<close>

datatype js_error =
    Error string
  | TransportError string
  | ParseError

text \<open>
  The platform the client runs on: \<open>fetch\<close> answers a URL with the text of the response
  body or rejects, \<open>JSON.parse\<close> reads a text as a value or throws (\<open>None\<close>).
\<close>

record platform =
  fetch :: "string \<Rightarrow> js_error + string"
  JSON_parse :: "string \<Rightarrow> js_value option"

definition res_text :: "string \<Rightarrow> js_error + js_value" where
  "res_text body = Inr (JStr body)"

definition res_json :: "platform \<Rightarrow> string \<Rightarrow> js_error + js_value" where
  "res_json env body =
     (case JSON_parse env body of None \<Rightarrow> Inl ParseError | Some v \<Rightarrow> Inr v)"

section \<open>Query strings\<close>

definition XML :: js_value where "XML = JStr ''xml''"
definition JSON :: js_value where "JSON = JStr ''json''"
definition TXT :: js_value where "TXT = JStr ''txt''"

text \<open>\<open>Object.values(VALID_RESPONSE_TYPES)\<close>.\<close>

definition VALID_RESPONSE_TYPES :: "js_value list" where
  "VALID_RESPONSE_TYPES = [XML, JSON, TXT]"

definition paramsObjToQueryString :: "js_object \<Rightarrow> string" where
  "paramsObjToQueryString params =
     join ''&''
       (map (\<lambda>(key, value). key @ ''='' @ to_string value)
         (filter (\<lambda>(key, value). if value = JUndefined then False else True) params))"

section \<open>The client\<close>

text \<open>What the closures of a constructed client hold.\<close>

record client =
  apiKey :: js_value
  responseFormat :: js_value

definition invalid_format_message :: "js_value \<Rightarrow> string" where
  "invalid_format_message fmt =
     ''Invalid 'responseFormat'. Valid format are 'xml', 'txt', and 'json'. You input ''
       @ to_string fmt"

definition txt_warning :: string where
  "txt_warning =
     ''TXT response format is only supported for the BuiltWith Lists API. See: https://api.builtwith.com/lists-api''"

definition BuiltWith :: "js_value \<Rightarrow> js_value \<Rightarrow> world \<Rightarrow> (js_error + client) \<times> world" where
  "BuiltWith key moduleParams0 w =
     (let moduleParams = (if moduleParams0 = JUndefined then JObj [] else moduleParams0);
          fmt = lodash_get moduleParams ''responseFormat'' JUndefined
      in if fmt \<notin> set VALID_RESPONSE_TYPES
         then (Inl (Error (invalid_format_message fmt)), w)
         else (Inr \<lparr>apiKey = key, responseFormat = fmt\<rparr>,
               if fmt = TXT then console_warn txt_warning w else w))"

definition constructBuiltWithURL ::
  "client \<Rightarrow> string \<Rightarrow> js_object option \<Rightarrow> string option \<Rightarrow> string" where
  "constructBuiltWithURL c apiName requestParams0 subdomain0 =
     (let requestParams = (case requestParams0 of None \<Rightarrow> [] | Some ps \<Rightarrow> ps);
          subdomain = (case subdomain0 of None \<Rightarrow> ''api'' | Some s \<Rightarrow> s);
          bwURL = ''https://'' @ subdomain @ ''.builtwith.com/'' @ apiName @ ''/api.''
                    @ to_string (responseFormat c) @ ''?KEY='' @ to_string (apiKey c)
      in if requestParams \<noteq> []
         then bwURL @ ''&'' @ paramsObjToQueryString requestParams
         else bwURL)"

section \<open>The endpoint methods\<close>

text \<open>
  Each method builds its URL, hands it to \<open>fetch\<close> (recorded in \<open>requests\<close>) and reads the
  response. A rejection of \<open>fetch\<close> rejects the call. The URL a method builds is a
  definition of its own (\<open>free_bwURL\<close>, \<open>domain_bwURL\<close>, ...), the \<open>const bwURL = ...\<close> of
  the method together with the option reads before it. The method \<open>keywords\<close> is
  \<open>keywords_method\<close> here, \<open>keywords\<close> being a reserved word of the theory language.
\<close>

definition invalid_json_warning :: string where
  "invalid_json_warning =
     ''BuiltWith sent an invalid JSON payload. Falling back to text parsing.''"

definition do_fetch :: "platform \<Rightarrow> string \<Rightarrow> world \<Rightarrow> (js_error + string) \<times> world" where
  "do_fetch env bwURL w = (fetch env bwURL, w\<lparr>requests := requests w @ [bwURL]\<rparr>)"

definition free_bwURL :: "client \<Rightarrow> js_value \<Rightarrow> string" where
  "free_bwURL c url = constructBuiltWithURL c ''free1'' (Some [(''LOOKUP'', url)]) None"

definition free ::
  "platform \<Rightarrow> client \<Rightarrow> js_value \<Rightarrow> world \<Rightarrow> (js_error + js_value) \<times> world" where
  "free env c url w =
     (case do_fetch env (free_bwURL c url) w of
        (Inl e, w1) \<Rightarrow> (Inl e, w1)
      | (Inr body, w1) \<Rightarrow>
          if responseFormat c = XML then (res_text body, w1) else (res_json env body, w1))"

definition domain_bwURL :: "client \<Rightarrow> js_value \<Rightarrow> js_value \<Rightarrow> string" where
  "domain_bwURL c url params =
     (let hideAll = lodash_get params ''hideAll'' (JBool False);
          noMetaData = lodash_get params ''noMetaData'' (JBool False);
          noAttributeData = lodash_get params ''noAttributeData'' (JBool False);
          hideDescriptionAndLinks = lodash_get params ''hideDescriptionAndLinks'' (JBool False);
          onlyLiveTechnologies = lodash_get params ''onlyLiveTechnologies'' (JBool False)
      in constructBuiltWithURL c ''v14''
           (Some [(''LOOKUP'', url),
                  (''HIDETEXT'', hideAll),
                  (''HIDEDL'', hideDescriptionAndLinks),
                  (''LIVEONLY'', onlyLiveTechnologies),
                  (''NOMETA'', noMetaData),
                  (''NOATTR'', noAttributeData)])
           None)"

definition domain ::
  "platform \<Rightarrow> client \<Rightarrow> js_value \<Rightarrow> js_value \<Rightarrow> world \<Rightarrow> (js_error + js_value) \<times> world" where
  "domain env c url params w =
     (case do_fetch env (domain_bwURL c url params) w of
        (Inl e, w1) \<Rightarrow> (Inl e, w1)
      | (Inr body, w1) \<Rightarrow>
          if responseFormat c = XML then (res_text body, w1) else (res_json env body, w1))"

definition lists_bwURL :: "client \<Rightarrow> js_value \<Rightarrow> js_value \<Rightarrow> string" where
  "lists_bwURL c technologies params =
     (let includeMetaData = lodash_get params ''includeMetaData'' (JBool False);
          offset = lodash_get params ''offset'' JUndefined;
          since = lodash_get params ''since'' JUndefined
      in constructBuiltWithURL c ''lists5''
           (Some [(''TECH'', technologies),
                  (''META'', includeMetaData),
                  (''OFFSET'', offset),
                  (''SINCE'', since)])
           None)"

definition lists ::
  "platform \<Rightarrow> client \<Rightarrow> js_value \<Rightarrow> js_value \<Rightarrow> world \<Rightarrow> (js_error + js_value) \<times> world" where
  "lists env c technologies params w =
     (case do_fetch env (lists_bwURL c technologies params) w of
        (Inl e, w1) \<Rightarrow> (Inl e, w1)
      | (Inr parsed, w1) \<Rightarrow>
          if responseFormat c = TXT \<or> responseFormat c = XML then (res_text parsed, w1)
          else (case JSON_parse env parsed of
                  Some v \<Rightarrow> (Inr v, w1)
                | None \<Rightarrow> (Inr (JStr parsed), console_warn invalid_json_warning w1)))"

definition relationships_bwURL :: "client \<Rightarrow> js_value \<Rightarrow> string" where
  "relationships_bwURL c url = constructBuiltWithURL c ''rv1'' (Some [(''LOOKUP'', url)]) None"

definition relationships ::
  "platform \<Rightarrow> client \<Rightarrow> js_value \<Rightarrow> world \<Rightarrow> (js_error + js_value) \<times> world" where
  "relationships env c url w =
     (case do_fetch env (relationships_bwURL c url) w of
        (Inl e, w1) \<Rightarrow> (Inl e, w1)
      | (Inr body, w1) \<Rightarrow>
          if responseFormat c = XML then (res_text body, w1) else (res_json env body, w1))"

definition keywords_bwURL :: "client \<Rightarrow> js_value \<Rightarrow> string" where
  "keywords_bwURL c url = constructBuiltWithURL c ''kw2'' (Some [(''LOOKUP'', url)]) None"

definition keywords_method ::
  "platform \<Rightarrow> client \<Rightarrow> js_value \<Rightarrow> world \<Rightarrow> (js_error + js_value) \<times> world" where
  "keywords_method env c url w =
     (case do_fetch env (keywords_bwURL c url) w of
        (Inl e, w1) \<Rightarrow> (Inl e, w1)
      | (Inr body, w1) \<Rightarrow>
          if responseFormat c = XML then (res_text body, w1) else (res_json env body, w1))"

definition trends_bwURL :: "client \<Rightarrow> js_value \<Rightarrow> js_value \<Rightarrow> string" where
  "trends_bwURL c technology params =
     (let date = lodash_get params ''date'' JUndefined
      in constructBuiltWithURL c ''trends/v6''
           (Some [(''TECH'', technology), (''DATE'', date)])
           None)"

definition trends ::
  "platform \<Rightarrow> client \<Rightarrow> js_value \<Rightarrow> js_value \<Rightarrow> world \<Rightarrow> (js_error + js_value) \<times> world" where
  "trends env c technology params w =
     (case do_fetch env (trends_bwURL c technology params) w of
        (Inl e, w1) \<Rightarrow> (Inl e, w1)
      | (Inr parsed, w1) \<Rightarrow>
          if responseFormat c = XML then (res_text parsed, w1)
          else (case JSON_parse env parsed of
                  Some v \<Rightarrow> (Inr v, w1)
                | None \<Rightarrow> (Inr (JStr parsed), console_warn invalid_json_warning w1)))"

definition companyToUrl_bwURL :: "client \<Rightarrow> js_value \<Rightarrow> js_value \<Rightarrow> string" where
  "companyToUrl_bwURL c companyName params =
     (let tld = lodash_get params ''tld'' JUndefined;
          amount = lodash_get params ''noMetaData'' JUndefined
      in constructBuiltWithURL c ''ctu1''
           (Some [(''COMPANY'', companyName), (''TLD'', tld), (''AMOUNT'', amount)])
           (Some ''ctu''))"

definition companyToUrl ::
  "platform \<Rightarrow> client \<Rightarrow> js_value \<Rightarrow> js_value \<Rightarrow> world \<Rightarrow> (js_error + js_value) \<times> world" where
  "companyToUrl env c companyName params w =
     (case do_fetch env (companyToUrl_bwURL c companyName params) w of
        (Inl e, w1) \<Rightarrow> (Inl e, w1)
      | (Inr body, w1) \<Rightarrow>
          if responseFormat c = XML then (res_text body, w1) else (res_json env body, w1))"

text \<open>
  A platform for worked examples: every request is answered with \<open>body\<close>, and
  \<open>JSON.parse\<close> reads \<open>body\<close> as \<open>parsed\<close> (\<open>None\<close> when \<open>body\<close> is not valid JSON).
\<close>

definition answering :: "string \<Rightarrow> js_value option \<Rightarrow> platform" where
  "answering body parsed =
     \<lparr>fetch = (\<lambda>url. Inr body), JSON_parse = (\<lambda>text. if text = body then parsed else None)\<rparr>"

definition quiet :: world where
  "quiet = \<lparr>warnings = [], requests = []\<rparr>"

section \<open>Auxiliary facts\<close>

lemma keep_defined_eq:
  "filter (\<lambda>(key, value). if value = JUndefined then False else True) ps
     = filter (\<lambda>(k, v). v \<noteq> JUndefined) ps"
  by (rule filter_cong) auto

lemma lodash_get_default_defined:
  "d \<noteq> JUndefined \<Longrightarrow> lodash_get p path d \<noteq> JUndefined"
  by (cases p) (auto split: option.splits)

lemma lodash_get_default_object:
  "lodash_get (if p = JUndefined then JObj [] else p) path d = lodash_get p path d"
  by simp

lemma join_snoc: "join sep (xs @ [x]) = (if xs = [] then x else join sep xs @ sep @ x)"
  by (induction sep xs rule: join.induct) auto

lemma join_eq_Nil: "[] \<notin> set xs \<Longrightarrow> join sep xs = [] \<longleftrightarrow> xs = []"
  by (induction sep xs rule: join.induct) auto

lemma paramsObjToQueryString_eq_Nil:
  "paramsObjToQueryString ps = [] \<longleftrightarrow> filter (\<lambda>(k, v). v \<noteq> JUndefined) ps = []"
proof -
  have "[] \<notin> set (map (\<lambda>(k, v). k @ ''='' @ to_string v)
                     (filter (\<lambda>(k, v). v \<noteq> JUndefined) ps))"
    by auto
  then show ?thesis
    unfolding paramsObjToQueryString_def keep_defined_eq by (simp add: join_eq_Nil)
qed

lemma all_undefined_filtered:
  "filter (\<lambda>(k, v). v \<noteq> JUndefined) (map (\<lambda>k. (k, JUndefined)) ks) = []"
  by (induction ks) auto

lemma constructBuiltWithURL_Some:
  "constructBuiltWithURL c apiName (Some params) subdomain0 =
     ''https://'' @ (case subdomain0 of None \<Rightarrow> ''api'' | Some s \<Rightarrow> s) @ ''.builtwith.com/''
       @ apiName @ ''/api.'' @ to_string (responseFormat c) @ ''?KEY='' @ to_string (apiKey c)
       @ (if params = [] then [] else ''&'' @ paramsObjToQueryString params)"
  by (simp add: constructBuiltWithURL_def)

lemma domain_bwURL_shape:
  "domain_bwURL c url params =
     ''https://api.builtwith.com/v14/api.'' @ to_string (responseFormat c) @ ''?KEY=''
       @ to_string (apiKey c) @ ''&''
       @ (if url = JUndefined then [] else ''LOOKUP='' @ to_string url @ ''&'')
       @ ''HIDETEXT='' @ to_string (lodash_get params ''hideAll'' (JBool False))
       @ ''&HIDEDL='' @ to_string (lodash_get params ''hideDescriptionAndLinks'' (JBool False))
       @ ''&LIVEONLY='' @ to_string (lodash_get params ''onlyLiveTechnologies'' (JBool False))
       @ ''&NOMETA='' @ to_string (lodash_get params ''noMetaData'' (JBool False))
       @ ''&NOATTR='' @ to_string (lodash_get params ''noAttributeData'' (JBool False))"
  by (simp add: domain_bwURL_def constructBuiltWithURL_Some paramsObjToQueryString_def
      keep_defined_eq lodash_get_default_defined)

lemma requests_domain:
  "requests (snd (domain env c url params w)) = requests w @ [domain_bwURL c url params]"
  by (simp add: domain_def do_fetch_def split: sum.splits)

section \<open>Query string serialisation\<close>

text \<open>
  C2. For every params mapping, the serialised query string is the \<open>key=value\<close> pairs of
  the entries whose value is not \<open>undefined\<close>, in the order of the mapping, joined by
  \<open>&\<close>: an entry holding \<open>undefined\<close> contributes nothing wherever it stands, an entry with
  a defined value is appended as \<open>key=value\<close> after the pairs before it, and the falsy
  values \<open>false\<close>, \<open>0\<close> and the empty string are printed as they are.
\<close>

theorem paramsObjToQueryString_omits_undefined_only:
  "paramsObjToQueryString params
     = join ''&'' (map (\<lambda>(k, v). k @ ''='' @ to_string v)
                     (filter (\<lambda>(k, v). v \<noteq> JUndefined) params))
   \<and> paramsObjToQueryString (ps @ (k, JUndefined) # qs) = paramsObjToQueryString (ps @ qs)
   \<and> (v \<noteq> JUndefined \<longrightarrow>
        paramsObjToQueryString (ps @ [(k, v)])
          = (if paramsObjToQueryString ps = [] then [] else paramsObjToQueryString ps @ ''&'')
              @ k @ ''='' @ to_string v)
   \<and> paramsObjToQueryString [(a, JBool False), (b, JNum 0), (c, JStr '''')]
       = a @ ''=false&'' @ b @ ''=0&'' @ c @ ''=''"
proof (intro conjI impI)
  show "paramsObjToQueryString params
     = join ''&'' (map (\<lambda>(k, v). k @ ''='' @ to_string v)
                     (filter (\<lambda>(k, v). v \<noteq> JUndefined) params))"
    by (simp add: paramsObjToQueryString_def keep_defined_eq)
  show "paramsObjToQueryString (ps @ (k, JUndefined) # qs) = paramsObjToQueryString (ps @ qs)"
    by (simp add: paramsObjToQueryString_def keep_defined_eq)
  show "paramsObjToQueryString [(a, JBool False), (b, JNum 0), (c, JStr '''')]
       = a @ ''=false&'' @ b @ ''=0&'' @ c @ ''=''"
    by (simp add: paramsObjToQueryString_def Number_toString_def digits_of_nat.simps)
next
  assume v: "v \<noteq> JUndefined"
  show "paramsObjToQueryString (ps @ [(k, v)])
          = (if paramsObjToQueryString ps = [] then [] else paramsObjToQueryString ps @ ''&'')
              @ k @ ''='' @ to_string v"
  proof (cases "filter (\<lambda>(k, v). v \<noteq> JUndefined) ps = []")
    case True
    with v show ?thesis
      by (simp add: paramsObjToQueryString_def keep_defined_eq)
  next
    case False
    then have "paramsObjToQueryString ps \<noteq> []"
      by (simp add: paramsObjToQueryString_eq_Nil)
    with False v show ?thesis
      by (simp add: paramsObjToQueryString_def keep_defined_eq join_snoc)
  qed
qed

text \<open>The request parameters of a \<open>lists\<close> call with \<open>since: 0\<close> and no offset.\<close>

theorem paramsObjToQueryString_omits_undefined_only_witness:
  "JNum 0 \<noteq> JUndefined \<and>
   paramsObjToQueryString
      [(''TECH'', JStr ''php''), (''META'', JBool False), (''OFFSET'', JUndefined),
       (''SINCE'', JNum 0)]
     = ''TECH=php&META=false&SINCE=0''"
  using paramsObjToQueryString_omits_undefined_only
    [where params = "[(''TECH'', JStr ''php''), (''META'', JBool False), (''OFFSET'', JUndefined)]"
       and ps = "[(''TECH'', JStr ''php''), (''META'', JBool False), (''OFFSET'', JUndefined)]"
       and k = "''SINCE''" and v = "JNum 0" and qs = "[]"]
  by (simp add: Number_toString_def digits_of_nat.simps)

section \<open>URL construction\<close>

text \<open>
  C7, as the code has it. The built URL is the base
  \<open>https://{subdomain}.builtwith.com/{path}/api.{responseFormat}?KEY={apiKey}\<close>, followed
  by \<open>&\<close> and the joined \<open>key=value\<close> pairs of the defined values exactly when the mapping
  has at least one key, whether or not its values are defined: the emptiness test is on
  the mapping as given, before \<open>undefined\<close> values are filtered out. So a mapping with a
  key and all values \<open>undefined\<close> yields the base URL followed by a bare \<open>&\<close>, and only the
  mapping without keys (or an omitted one) yields the bare base URL. An omitted subdomain
  is \<open>api\<close>.
\<close>

theorem constructBuiltWithURL_appends_for_any_key:
  "constructBuiltWithURL c apiName (Some params) (Some subdomain) =
     ''https://'' @ subdomain @ ''.builtwith.com/'' @ apiName @ ''/api.''
       @ to_string (responseFormat c) @ ''?KEY='' @ to_string (apiKey c)
       @ (if params = [] then []
          else ''&'' @ join ''&'' (map (\<lambda>(k, v). k @ ''='' @ to_string v)
                                   (filter (\<lambda>(k, v). v \<noteq> JUndefined) params)))
   \<and> constructBuiltWithURL c apiName (Some (map (\<lambda>k. (k, JUndefined)) (key # keys)))
         (Some subdomain) =
     ''https://'' @ subdomain @ ''.builtwith.com/'' @ apiName @ ''/api.''
       @ to_string (responseFormat c) @ ''?KEY='' @ to_string (apiKey c) @ ''&''
   \<and> constructBuiltWithURL c apiName None (Some subdomain) =
     ''https://'' @ subdomain @ ''.builtwith.com/'' @ apiName @ ''/api.''
       @ to_string (responseFormat c) @ ''?KEY='' @ to_string (apiKey c)
   \<and> constructBuiltWithURL c apiName requestParams None
       = constructBuiltWithURL c apiName requestParams (Some ''api'')"
proof (intro conjI)
  show "constructBuiltWithURL c apiName (Some params) (Some subdomain) =
     ''https://'' @ subdomain @ ''.builtwith.com/'' @ apiName @ ''/api.''
       @ to_string (responseFormat c) @ ''?KEY='' @ to_string (apiKey c)
       @ (if params = [] then []
          else ''&'' @ join ''&'' (map (\<lambda>(k, v). k @ ''='' @ to_string v)
                                   (filter (\<lambda>(k, v). v \<noteq> JUndefined) params)))"
    by (simp add: constructBuiltWithURL_Some paramsObjToQueryString_def keep_defined_eq)
  show "constructBuiltWithURL c apiName (Some (map (\<lambda>k. (k, JUndefined)) (key # keys)))
         (Some subdomain) =
     ''https://'' @ subdomain @ ''.builtwith.com/'' @ apiName @ ''/api.''
       @ to_string (responseFormat c) @ ''?KEY='' @ to_string (apiKey c) @ ''&''"
    using all_undefined_filtered [of keys]
    by (simp add: constructBuiltWithURL_Some paramsObjToQueryString_def keep_defined_eq)
  show "constructBuiltWithURL c apiName None (Some subdomain) =
     ''https://'' @ subdomain @ ''.builtwith.com/'' @ apiName @ ''/api.''
       @ to_string (responseFormat c) @ ''?KEY='' @ to_string (apiKey c)"
    by (simp add: constructBuiltWithURL_def)
  show "constructBuiltWithURL c apiName requestParams None
       = constructBuiltWithURL c apiName requestParams (Some ''api'')"
    by (simp add: constructBuiltWithURL_def)
qed

text \<open>The URL of \<open>companyToUrl("Acme", {tld: "com"})\<close> and of \<open>free()\<close> without its argument.\<close>

theorem constructBuiltWithURL_appends_for_any_key_witness:
  "constructBuiltWithURL \<lparr>apiKey = JStr ''K'', responseFormat = JStr ''json''\<rparr> ''ctu1''
      (Some [(''COMPANY'', JStr ''Acme''), (''TLD'', JStr ''com''), (''AMOUNT'', JUndefined)])
      (Some ''ctu'')
     = ''https://ctu.builtwith.com/ctu1/api.json?KEY=K&COMPANY=Acme&TLD=com''
   \<and> constructBuiltWithURL \<lparr>apiKey = JStr ''K'', responseFormat = JStr ''json''\<rparr> ''free1''
      (Some [(''LOOKUP'', JUndefined)]) None
     = ''https://api.builtwith.com/free1/api.json?KEY=K&''"
  using constructBuiltWithURL_appends_for_any_key
    [where c = "\<lparr>apiKey = JStr ''K'', responseFormat = JStr ''json''\<rparr>" and apiName = "''ctu1''"
       and params = "[(''COMPANY'', JStr ''Acme''), (''TLD'', JStr ''com''), (''AMOUNT'', JUndefined)]"
       and subdomain = "''ctu''" and key = "''LOOKUP''" and keys = "[]"
       and requestParams = "Some [(''LOOKUP'', JUndefined)]"]
    constructBuiltWithURL_appends_for_any_key
    [where c = "\<lparr>apiKey = JStr ''K'', responseFormat = JStr ''json''\<rparr>" and apiName = "''free1''"
       and params = "[]" and subdomain = "''api''" and key = "''LOOKUP''" and keys = "[]"
       and requestParams = "Some [(''LOOKUP'', JUndefined)]"]
  by simp

text \<open>
  C7 as stated fails where every value is \<open>undefined\<close>: nothing is left after filtering,
  and the URL is still not the bare base URL, it ends in \<open>&\<close>.
\<close>

theorem constructBuiltWithURL_all_undefined_counterexample:
  "paramsObjToQueryString [(''LOOKUP'', JUndefined)] = []
   \<and> constructBuiltWithURL \<lparr>apiKey = JStr ''K'', responseFormat = JStr ''json''\<rparr> ''free1''
        (Some [(''LOOKUP'', JUndefined)]) None
       \<noteq> ''https://api.builtwith.com/free1/api.json?KEY=K''
   \<and> constructBuiltWithURL \<lparr>apiKey = JStr ''K'', responseFormat = JStr ''json''\<rparr> ''free1''
        (Some [(''LOOKUP'', JUndefined)]) None
       = ''https://api.builtwith.com/free1/api.json?KEY=K&''"
  by (simp add: constructBuiltWithURL_def paramsObjToQueryString_def)

section \<open>The domain lookup\<close>

text \<open>
  C1, as the code has it. \<open>domain("a.com", { hideAll: true })\<close> on a client constructed
  with apiKey \<open>K\<close> and responseFormat \<open>json\<close> requests exactly the URL
  \<open>https://api.builtwith.com/v14/api.json?KEY=K&LOOKUP=a.com&HIDETEXT=true&HIDEDL=false&LIVEONLY=false&NOMETA=false&NOATTR=false\<close>:
  the parameters come in the declared order LOOKUP, HIDETEXT, HIDEDL, LIVEONLY, NOMETA,
  NOATTR, and since every optional flag that is not given is read as \<open>false\<close>, not as
  \<open>undefined\<close>, none of them is dropped from the query string.
\<close>

theorem domain_hideAll_request_url:
  "BuiltWith (JStr ''K'') (JObj [(''responseFormat'', JStr ''json'')]) w
     = (Inr \<lparr>apiKey = JStr ''K'', responseFormat = JStr ''json''\<rparr>, w)
   \<and> domain_bwURL \<lparr>apiKey = JStr ''K'', responseFormat = JStr ''json''\<rparr>
         (JStr ''a.com'') (JObj [(''hideAll'', JBool True)])
       = ''https://api.builtwith.com/v14/api.json?KEY=K&LOOKUP=a.com&HIDETEXT=true&HIDEDL=false&LIVEONLY=false&NOMETA=false&NOATTR=false''
   \<and> requests (snd (domain env \<lparr>apiKey = JStr ''K'', responseFormat = JStr ''json''\<rparr>
                        (JStr ''a.com'') (JObj [(''hideAll'', JBool True)]) w))
       = requests w @ [''https://api.builtwith.com/v14/api.json?KEY=K&LOOKUP=a.com&HIDETEXT=true&HIDEDL=false&LIVEONLY=false&NOMETA=false&NOATTR=false'']"
  by (simp add: BuiltWith_def VALID_RESPONSE_TYPES_def XML_def JSON_def TXT_def requests_domain
      domain_bwURL_shape)

text \<open>The same call on a platform that answers \<open>{}\<close>, with nothing requested before.\<close>

theorem domain_hideAll_request_url_witness:
  "requests (snd (domain (answering ''{}'' (Some (JObj [])))
                     \<lparr>apiKey = JStr ''K'', responseFormat = JStr ''json''\<rparr>
                     (JStr ''a.com'') (JObj [(''hideAll'', JBool True)]) quiet))
     = [''https://api.builtwith.com/v14/api.json?KEY=K&LOOKUP=a.com&HIDETEXT=true&HIDEDL=false&LIVEONLY=false&NOMETA=false&NOATTR=false'']"
  using domain_hideAll_request_url [where w = quiet and env = "answering ''{}'' (Some (JObj []))"]
  by (simp add: quiet_def)

text \<open>
  C1 as stated fails: the URL built for that call is not the one that stops after
  \<open>HIDETEXT=true\<close>.
\<close>

theorem domain_hideAll_short_url_counterexample:
  "domain_bwURL \<lparr>apiKey = JStr ''K'', responseFormat = JStr ''json''\<rparr>
      (JStr ''a.com'') (JObj [(''hideAll'', JBool True)])
     \<noteq> ''https://api.builtwith.com/v14/api.json?KEY=K&LOOKUP=a.com&HIDETEXT=true''"
  by (simp add: domain_bwURL_shape)

text \<open>
  C10. For every call to \<open>domain\<close> with the options argument omitted (\<open>undefined\<close>) or
  empty (\<open>{}\<close>), on every client and for every url, the requested URL ends with
  \<open>HIDETEXT=false&HIDEDL=false&LIVEONLY=false&NOMETA=false&NOATTR=false\<close>, after
  \<open>LOOKUP\<close> when the url is given. For any options at all, each of the five flags is in
  the query string, with the option's value or \<open>false\<close>.
\<close>

theorem domain_default_flags_false:
  assumes "params = JUndefined \<or> params = JObj []"
  shows "domain_bwURL c url params =
       ''https://api.builtwith.com/v14/api.'' @ to_string (responseFormat c) @ ''?KEY=''
         @ to_string (apiKey c) @ ''&''
         @ (if url = JUndefined then [] else ''LOOKUP='' @ to_string url @ ''&'')
         @ ''HIDETEXT=false&HIDEDL=false&LIVEONLY=false&NOMETA=false&NOATTR=false''
     \<and> requests (snd (domain env c url params w)) =
       requests w @
       [''https://api.builtwith.com/v14/api.'' @ to_string (responseFormat c) @ ''?KEY=''
         @ to_string (apiKey c) @ ''&''
         @ (if url = JUndefined then [] else ''LOOKUP='' @ to_string url @ ''&'')
         @ ''HIDETEXT=false&HIDEDL=false&LIVEONLY=false&NOMETA=false&NOATTR=false'']
     \<and> domain_bwURL c url options =
       ''https://api.builtwith.com/v14/api.'' @ to_string (responseFormat c) @ ''?KEY=''
         @ to_string (apiKey c) @ ''&''
         @ (if url = JUndefined then [] else ''LOOKUP='' @ to_string url @ ''&'')
         @ ''HIDETEXT='' @ to_string (lodash_get options ''hideAll'' (JBool False))
         @ ''&HIDEDL='' @ to_string (lodash_get options ''hideDescriptionAndLinks'' (JBool False))
         @ ''&LIVEONLY='' @ to_string (lodash_get options ''onlyLiveTechnologies'' (JBool False))
         @ ''&NOMETA='' @ to_string (lodash_get options ''noMetaData'' (JBool False))
         @ ''&NOATTR='' @ to_string (lodash_get options ''noAttributeData'' (JBool False))"
proof (intro conjI)
  show url: "domain_bwURL c url params =
       ''https://api.builtwith.com/v14/api.'' @ to_string (responseFormat c) @ ''?KEY=''
         @ to_string (apiKey c) @ ''&''
         @ (if url = JUndefined then [] else ''LOOKUP='' @ to_string url @ ''&'')
         @ ''HIDETEXT=false&HIDEDL=false&LIVEONLY=false&NOMETA=false&NOATTR=false''"
    using assms by (auto simp add: domain_bwURL_shape)
  show "requests (snd (domain env c url params w)) =
       requests w @
       [''https://api.builtwith.com/v14/api.'' @ to_string (responseFormat c) @ ''?KEY=''
         @ to_string (apiKey c) @ ''&''
         @ (if url = JUndefined then [] else ''LOOKUP='' @ to_string url @ ''&'')
         @ ''HIDETEXT=false&HIDEDL=false&LIVEONLY=false&NOMETA=false&NOATTR=false'']"
    unfolding requests_domain url by (rule refl)
  show "domain_bwURL c url options =
       ''https://api.builtwith.com/v14/api.'' @ to_string (responseFormat c) @ ''?KEY=''
         @ to_string (apiKey c) @ ''&''
         @ (if url = JUndefined then [] else ''LOOKUP='' @ to_string url @ ''&'')
         @ ''HIDETEXT='' @ to_string (lodash_get options ''hideAll'' (JBool False))
         @ ''&HIDEDL='' @ to_string (lodash_get options ''hideDescriptionAndLinks'' (JBool False))
         @ ''&LIVEONLY='' @ to_string (lodash_get options ''onlyLiveTechnologies'' (JBool False))
         @ ''&NOMETA='' @ to_string (lodash_get options ''noMetaData'' (JBool False))
         @ ''&NOATTR='' @ to_string (lodash_get options ''noAttributeData'' (JBool False))"
    by (rule domain_bwURL_shape)
qed

text \<open>\<open>domain("example.com")\<close> and \<open>domain("example.com", {})\<close> on an XML client.\<close>

theorem domain_default_flags_false_witness:
  "domain_bwURL \<lparr>apiKey = JStr ''K'', responseFormat = JStr ''xml''\<rparr> (JStr ''example.com'')
       JUndefined
     = ''https://api.builtwith.com/v14/api.xml?KEY=K&LOOKUP=example.com&HIDETEXT=false&HIDEDL=false&LIVEONLY=false&NOMETA=false&NOATTR=false''
   \<and> requests (snd (domain (answering ''<r/>'' None)
          \<lparr>apiKey = JStr ''K'', responseFormat = JStr ''xml''\<rparr> (JStr ''example.com'')
          (JObj []) quiet))
     = [''https://api.builtwith.com/v14/api.xml?KEY=K&LOOKUP=example.com&HIDETEXT=false&HIDEDL=false&LIVEONLY=false&NOMETA=false&NOATTR=false'']"
proof -
  have omitted: "JUndefined = JUndefined \<or> JUndefined = JObj []"
    by simp
  have empty: "JObj [] = JUndefined \<or> JObj [] = JObj []"
    by simp
  show ?thesis
    using domain_default_flags_false [OF omitted,
        where c = "\<lparr>apiKey = JStr ''K'', responseFormat = JStr ''xml''\<rparr>"
          and url = "JStr ''example.com''"]
      domain_default_flags_false [OF empty,
        where c = "\<lparr>apiKey = JStr ''K'', responseFormat = JStr ''xml''\<rparr>"
          and url = "JStr ''example.com''" and env = "answering ''<r/>'' None" and w = quiet]
    by (simp add: quiet_def)
qed

section \<open>Reading the response\<close>

text \<open>
  C3. On a client whose responseFormat is \<open>json\<close>, a \<open>lists\<close> call whose request is
  answered with a body that is not valid JSON resolves to that body as a string, it does
  not reject, and the fallback warning is written once; the request is made once.
\<close>

theorem lists_json_falls_back_to_text:
  assumes "responseFormat c = JStr ''json''"
    and "fetch env (lists_bwURL c technologies params) = Inr body"
    and "JSON_parse env body = None"
  shows "fst (lists env c technologies params w) = Inr (JStr body)
     \<and> warnings (snd (lists env c technologies params w))
         = warnings w @ [''BuiltWith sent an invalid JSON payload. Falling back to text parsing.'']
     \<and> requests (snd (lists env c technologies params w))
         = requests w @ [lists_bwURL c technologies params]"
  using assms
  by (simp add: lists_def do_fetch_def console_warn_def invalid_json_warning_def TXT_def XML_def)

text \<open>\<open>lists(["php"])\<close> answered with the text \<open>Error: invalid key\<close>.\<close>

theorem lists_json_falls_back_to_text_witness:
  "JSON_parse (answering ''Error: invalid key'' None) ''Error: invalid key'' = None
   \<and> fst (lists (answering ''Error: invalid key'' None)
             \<lparr>apiKey = JStr ''K'', responseFormat = JStr ''json''\<rparr>
             (JArr [JStr ''php'']) JUndefined quiet)
       = Inr (JStr ''Error: invalid key'')
   \<and> warnings (snd (lists (answering ''Error: invalid key'' None)
             \<lparr>apiKey = JStr ''K'', responseFormat = JStr ''json''\<rparr>
             (JArr [JStr ''php'']) JUndefined quiet))
       = [''BuiltWith sent an invalid JSON payload. Falling back to text parsing.'']"
  using lists_json_falls_back_to_text
    [where c = "\<lparr>apiKey = JStr ''K'', responseFormat = JStr ''json''\<rparr>"
       and env = "answering ''Error: invalid key'' None"
       and technologies = "JArr [JStr ''php'']" and params = JUndefined
       and body = "''Error: invalid key''" and w = quiet]
  by (simp add: answering_def quiet_def)

text \<open>
  C4. On a client whose responseFormat is \<open>json\<close>, a \<open>free\<close> call whose request is
  answered with a body that is not valid JSON rejects with the parse error; nothing is
  logged and no text is returned in its place.
\<close>

theorem free_json_rejects_invalid_body:
  assumes "responseFormat c = JStr ''json''"
    and "fetch env (free_bwURL c url) = Inr body"
    and "JSON_parse env body = None"
  shows "fst (free env c url w) = Inl ParseError
     \<and> warnings (snd (free env c url w)) = warnings w
     \<and> requests (snd (free env c url w)) = requests w @ [free_bwURL c url]"
  using assms
  by (simp add: free_def do_fetch_def res_json_def XML_def)

text \<open>\<open>free("example.com")\<close> answered with the text \<open>Error: invalid key\<close>.\<close>

theorem free_json_rejects_invalid_body_witness:
  "JSON_parse (answering ''Error: invalid key'' None) ''Error: invalid key'' = None
   \<and> fst (free (answering ''Error: invalid key'' None)
             \<lparr>apiKey = JStr ''K'', responseFormat = JStr ''json''\<rparr>
             (JStr ''example.com'') quiet)
       = Inl ParseError"
  using free_json_rejects_invalid_body
    [where c = "\<lparr>apiKey = JStr ''K'', responseFormat = JStr ''json''\<rparr>"
       and env = "answering ''Error: invalid key'' None"
       and url = "JStr ''example.com''"
       and body = "''Error: invalid key''" and w = quiet]
  by (simp add: answering_def)

text \<open>
  C5, as the code has it. On a client whose responseFormat is \<open>txt\<close>, a \<open>trends\<close> call
  reads the response the way it does under \<open>json\<close>: the body is parsed as JSON first; a
  body that is valid JSON is returned as the parsed value without a warning, and only a
  body that is not valid JSON is returned as its raw text, after the fallback warning.
  \<open>trends\<close> returns the raw text for every body, without a warning, only under \<open>xml\<close>.
  Of the two report endpoints it is \<open>lists\<close> that returns the raw text for every body
  under \<open>txt\<close>.
\<close>

theorem trends_txt_parses_then_falls_back:
  assumes "fetch env (trends_bwURL c technology params) = Inr body"
  shows "(responseFormat c = JStr ''txt'' \<or> responseFormat c = JStr ''json'' \<longrightarrow>
           fst (trends env c technology params w)
             = (case JSON_parse env body of None \<Rightarrow> Inr (JStr body) | Some v \<Rightarrow> Inr v)
         \<and> warnings (snd (trends env c technology params w))
             = (case JSON_parse env body of
                  None \<Rightarrow> warnings w
                    @ [''BuiltWith sent an invalid JSON payload. Falling back to text parsing.'']
                | Some v \<Rightarrow> warnings w))
     \<and> (responseFormat c = JStr ''xml'' \<longrightarrow>
           fst (trends env c technology params w) = Inr (JStr body)
         \<and> warnings (snd (trends env c technology params w)) = warnings w)
     \<and> requests (snd (trends env c technology params w))
           = requests w @ [trends_bwURL c technology params]
     \<and> (responseFormat c = JStr ''txt''
           \<and> fetch env (lists_bwURL c technologies options) = Inr reply \<longrightarrow>
           fst (lists env c technologies options w) = Inr (JStr reply)
         \<and> warnings (snd (lists env c technologies options w)) = warnings w)"
proof (intro conjI impI)
  assume "responseFormat c = JStr ''txt'' \<or> responseFormat c = JStr ''json''"
  then have not_xml: "responseFormat c \<noteq> XML"
    by (auto simp add: XML_def)
  from assms not_xml
  show "fst (trends env c technology params w)
          = (case JSON_parse env body of None \<Rightarrow> Inr (JStr body) | Some v \<Rightarrow> Inr v)"
    by (simp add: trends_def do_fetch_def split: option.splits)
  from assms not_xml
  show "warnings (snd (trends env c technology params w))
          = (case JSON_parse env body of
               None \<Rightarrow> warnings w
                 @ [''BuiltWith sent an invalid JSON payload. Falling back to text parsing.'']
             | Some v \<Rightarrow> warnings w)"
    by (simp add: trends_def do_fetch_def console_warn_def invalid_json_warning_def
        split: option.splits)
next
  assume xml: "responseFormat c = JStr ''xml''"
  with assms show "fst (trends env c technology params w) = Inr (JStr body)"
    by (simp add: trends_def do_fetch_def res_text_def XML_def)
  from assms xml show "warnings (snd (trends env c technology params w)) = warnings w"
    by (simp add: trends_def do_fetch_def res_text_def XML_def)
next
  from assms
  show "requests (snd (trends env c technology params w))
          = requests w @ [trends_bwURL c technology params]"
    by (simp add: trends_def do_fetch_def console_warn_def split: option.splits)
next
  assume on_txt: "responseFormat c = JStr ''txt''
                 \<and> fetch env (lists_bwURL c technologies options) = Inr reply"
  then show "fst (lists env c technologies options w) = Inr (JStr reply)"
    by (simp add: lists_def do_fetch_def res_text_def TXT_def)
  from on_txt show "warnings (snd (lists env c technologies options w)) = warnings w"
    by (simp add: lists_def do_fetch_def res_text_def TXT_def)
qed

text \<open>
  \<open>trends("php")\<close> answered with a text that is not JSON on a \<open>txt\<close> client, with the
  text \<open>42\<close> on a \<open>json\<close> and on an \<open>xml\<close> client, and \<open>lists("php")\<close> answered with \<open>42\<close>
  on a \<open>txt\<close> client.
\<close>

theorem trends_txt_parses_then_falls_back_witness:
  "fetch (answering ''No data'' None)
      (trends_bwURL \<lparr>apiKey = JStr ''K'', responseFormat = JStr ''txt''\<rparr> (JStr ''php'') JUndefined)
     = Inr ''No data''
   \<and> fst (trends (answering ''No data'' None)
          \<lparr>apiKey = JStr ''K'', responseFormat = JStr ''txt''\<rparr> (JStr ''php'') JUndefined quiet)
     = Inr (JStr ''No data'')
   \<and> warnings (snd (trends (answering ''No data'' None)
          \<lparr>apiKey = JStr ''K'', responseFormat = JStr ''txt''\<rparr> (JStr ''php'') JUndefined quiet))
     = [''BuiltWith sent an invalid JSON payload. Falling back to text parsing.'']
   \<and> fst (trends (answering ''42'' (Some (JNum 42)))
          \<lparr>apiKey = JStr ''K'', responseFormat = JStr ''json''\<rparr> (JStr ''php'') JUndefined quiet)
     = Inr (JNum 42)
   \<and> warnings (snd (trends (answering ''42'' (Some (JNum 42)))
          \<lparr>apiKey = JStr ''K'', responseFormat = JStr ''json''\<rparr> (JStr ''php'') JUndefined quiet))
     = []
   \<and> fst (trends (answering ''42'' (Some (JNum 42)))
          \<lparr>apiKey = JStr ''K'', responseFormat = JStr ''xml''\<rparr> (JStr ''php'') JUndefined quiet)
     = Inr (JStr ''42'')
   \<and> warnings (snd (trends (answering ''42'' (Some (JNum 42)))
          \<lparr>apiKey = JStr ''K'', responseFormat = JStr ''xml''\<rparr> (JStr ''php'') JUndefined quiet))
     = []
   \<and> requests (snd (trends (answering ''42'' (Some (JNum 42)))
          \<lparr>apiKey = JStr ''K'', responseFormat = JStr ''xml''\<rparr> (JStr ''php'') JUndefined quiet))
     = [''https://api.builtwith.com/trends/v6/api.xml?KEY=K&TECH=php'']
   \<and> fst (lists (answering ''42'' (Some (JNum 42)))
          \<lparr>apiKey = JStr ''K'', responseFormat = JStr ''txt''\<rparr> (JStr ''php'') JUndefined quiet)
     = Inr (JStr ''42'')"
proof -
  have no_data: "fetch (answering ''No data'' None) url = Inr ''No data''" for url
    by (simp add: answering_def)
  have number: "fetch (answering ''42'' (Some (JNum 42))) url = Inr ''42''" for url
    by (simp add: answering_def)
  show ?thesis
    using trends_txt_parses_then_falls_back
        [OF no_data, where c = "\<lparr>apiKey = JStr ''K'', responseFormat = JStr ''txt''\<rparr>"
           and technology = "JStr ''php''" and params = JUndefined and w = quiet
           and technologies = "JStr ''php''" and options = JUndefined and reply = "''No data''"]
      trends_txt_parses_then_falls_back
        [OF number, where c = "\<lparr>apiKey = JStr ''K'', responseFormat = JStr ''json''\<rparr>"
           and technology = "JStr ''php''" and params = JUndefined and w = quiet
           and technologies = "JStr ''php''" and options = JUndefined and reply = "''42''"]
      trends_txt_parses_then_falls_back
        [OF number, where c = "\<lparr>apiKey = JStr ''K'', responseFormat = JStr ''xml''\<rparr>"
           and technology = "JStr ''php''" and params = JUndefined and w = quiet
           and technologies = "JStr ''php''" and options = JUndefined and reply = "''42''"]
      trends_txt_parses_then_falls_back
        [OF number, where c = "\<lparr>apiKey = JStr ''K'', responseFormat = JStr ''txt''\<rparr>"
           and technology = "JStr ''php''" and params = JUndefined and w = quiet
           and technologies = "JStr ''php''" and options = JUndefined and reply = "''42''"]
    by (simp add: answering_def quiet_def trends_bwURL_def constructBuiltWithURL_def
        paramsObjToQueryString_def)
qed

text \<open>
  C5 as stated fails on a body that is valid JSON: answered with the text \<open>42\<close>, which
  \<open>JSON.parse\<close> reads as the number 42, \<open>trends("php")\<close> on a \<open>txt\<close> client resolves to the
  number, not to the text.
\<close>

theorem trends_txt_raw_text_counterexample:
  "fst (trends (answering ''42'' (Some (JNum 42)))
          \<lparr>apiKey = JStr ''K'', responseFormat = JStr ''txt''\<rparr> (JStr ''php'') JUndefined quiet)
     = Inr (JNum 42)
   \<and> fst (trends (answering ''42'' (Some (JNum 42)))
          \<lparr>apiKey = JStr ''K'', responseFormat = JStr ''txt''\<rparr> (JStr ''php'') JUndefined quiet)
     \<noteq> Inr (JStr ''42'')"
  by (simp add: trends_def do_fetch_def answering_def XML_def)

section \<open>The company lookup\<close>

text \<open>
  C6 at \<open>companyToUrl("Acme", { amount: 5 })\<close> on a client with apiKey \<open>K\<close> and
  responseFormat \<open>json\<close>: the URL is on the \<open>ctu\<close> subdomain with path \<open>ctu1\<close> and carries
  \<open>COMPANY\<close>, but no \<open>AMOUNT\<close>; the value sent as \<open>AMOUNT\<close> is the one of the option
  \<open>noMetaData\<close>.
\<close>

theorem companyToUrl_amount_not_forwarded:
  "companyToUrl_bwURL \<lparr>apiKey = JStr ''K'', responseFormat = JStr ''json''\<rparr>
      (JStr ''Acme'') (JObj [(''amount'', JNum 5)])
     = ''https://ctu.builtwith.com/ctu1/api.json?KEY=K&COMPANY=Acme''
   \<and> companyToUrl_bwURL \<lparr>apiKey = JStr ''K'', responseFormat = JStr ''json''\<rparr>
      (JStr ''Acme'') (JObj [(''tld'', JStr ''com''), (''noMetaData'', JNum 5)])
     = ''https://ctu.builtwith.com/ctu1/api.json?KEY=K&COMPANY=Acme&TLD=com&AMOUNT=5''"
  by (simp add: companyToUrl_bwURL_def constructBuiltWithURL_Some paramsObjToQueryString_def
      Number_toString_def digits_of_nat.simps)

section \<open>Constructing a client\<close>

text \<open>
  C8. Constructing a client with a responseFormat that is missing (read as \<open>undefined\<close>)
  or is not one of \<open>xml\<close>, \<open>json\<close>, \<open>txt\<close> throws the configuration error: no client is
  returned, so no method can be called, and nothing has been requested or logged.
\<close>

theorem BuiltWith_rejects_unknown_format:
  assumes "lodash_get moduleParams ''responseFormat'' JUndefined = fmt"
    and "fmt \<noteq> JStr ''xml''" and "fmt \<noteq> JStr ''json''" and "fmt \<noteq> JStr ''txt''"
  shows "BuiltWith key moduleParams w =
      (Inl (Error (''Invalid 'responseFormat'. Valid format are 'xml', 'txt', and 'json'. You input ''
                     @ to_string fmt)), w)"
proof -
  have "lodash_get (if moduleParams = JUndefined then JObj [] else moduleParams)
          ''responseFormat'' JUndefined = fmt"
    using assms(1) by (simp only: lodash_get_default_object)
  with assms(2-4) show ?thesis
    by (simp add: BuiltWith_def Let_def VALID_RESPONSE_TYPES_def XML_def JSON_def TXT_def
        invalid_format_message_def)
qed

text \<open>The format \<open>yaml\<close>, and a client constructed with the key alone.\<close>

theorem BuiltWith_rejects_unknown_format_witness:
  "lodash_get (JObj [(''responseFormat'', JStr ''yaml'')]) ''responseFormat'' JUndefined
     = JStr ''yaml''
   \<and> BuiltWith (JStr ''K'') (JObj [(''responseFormat'', JStr ''yaml'')]) quiet
     = (Inl (Error ''Invalid 'responseFormat'. Valid format are 'xml', 'txt', and 'json'. You input yaml''),
        quiet)
   \<and> BuiltWith (JStr ''K'') JUndefined quiet
     = (Inl (Error ''Invalid 'responseFormat'. Valid format are 'xml', 'txt', and 'json'. You input undefined''),
        quiet)"
  using BuiltWith_rejects_unknown_format
      [where moduleParams = "JObj [(''responseFormat'', JStr ''yaml'')]" and fmt = "JStr ''yaml''"
         and key = "JStr ''K''" and w = quiet]
    BuiltWith_rejects_unknown_format
      [where moduleParams = JUndefined and fmt = JUndefined and key = "JStr ''K''" and w = quiet]
  by simp

text \<open>
  C9. Constructing a client with responseFormat \<open>txt\<close> returns a client and writes
  exactly one warning; nothing is requested. The client is usable: its \<open>lists\<close> method
  resolves to the text of the response.
\<close>

theorem BuiltWith_txt_warns_once:
  assumes "lodash_get moduleParams ''responseFormat'' JUndefined = JStr ''txt''"
  shows "BuiltWith key moduleParams w
           = (Inr \<lparr>apiKey = key, responseFormat = JStr ''txt''\<rparr>,
              w\<lparr>warnings := warnings w
                 @ [''TXT response format is only supported for the BuiltWith Lists API. See: https://api.builtwith.com/lists-api'']\<rparr>)
     \<and> (fetch env (lists_bwURL \<lparr>apiKey = key, responseFormat = JStr ''txt''\<rparr> technologies params)
           = Inr body \<longrightarrow>
         fst (lists env \<lparr>apiKey = key, responseFormat = JStr ''txt''\<rparr> technologies params w')
           = Inr (JStr body))"
proof -
  have "lodash_get (if moduleParams = JUndefined then JObj [] else moduleParams)
          ''responseFormat'' JUndefined = JStr ''txt''"
    using assms by (simp only: lodash_get_default_object)
  then show ?thesis
    by (simp add: BuiltWith_def Let_def VALID_RESPONSE_TYPES_def XML_def JSON_def TXT_def
        console_warn_def txt_warning_def lists_def do_fetch_def res_text_def)
qed

text \<open>A \<open>txt\<close> client constructed from scratch.\<close>

theorem BuiltWith_txt_warns_once_witness:
  "lodash_get (JObj [(''responseFormat'', JStr ''txt'')]) ''responseFormat'' JUndefined
     = JStr ''txt''
   \<and> BuiltWith (JStr ''K'') (JObj [(''responseFormat'', JStr ''txt'')]) quiet
     = (Inr \<lparr>apiKey = JStr ''K'', responseFormat = JStr ''txt''\<rparr>,
        \<lparr>warnings = [''TXT response format is only supported for the BuiltWith Lists API. See: https://api.builtwith.com/lists-api''],
         requests = []\<rparr>)
   \<and> fst (lists (answering ''a.com'' None) \<lparr>apiKey = JStr ''K'', responseFormat = JStr ''txt''\<rparr>
            (JStr ''php'') JUndefined quiet)
     = Inr (JStr ''a.com'')"
  using BuiltWith_txt_warns_once
      [where moduleParams = "JObj [(''responseFormat'', JStr ''txt'')]" and key = "JStr ''K''"
         and w = quiet and env = "answering ''a.com'' None" and technologies = "JStr ''php''"
         and params = JUndefined and body = "''a.com''" and w' = quiet]
  by (simp add: quiet_def answering_def)

end
